theory Spec2Isabelle
  imports Main
begin

section \<open>Arrow schema values\<close>

text \<open>
  The translation in \<^verbatim>\<open>python/lancedb/pydantic.py\<close> builds pyarrow objects. They are
  modelled as terms: \<open>Int64\<close> stands for \<^verbatim>\<open>pa.int64()\<close>, \<open>ListType t\<close> for the variable-size
  list type of \<open>t\<close>, \<open>FixedSizeListType t n\<close> for the fixed-size list type of \<open>n\<close> items,
  \<open>StructType fs\<close> for \<^verbatim>\<open>pa.struct(fs)\<close>, \<open>Field n t b\<close> for \<^verbatim>\<open>pa.field(n, t, b)\<close> and
  \<open>Schema fs\<close> for \<^verbatim>\<open>pa.schema(fs)\<close>. \<open>OtherArrow\<close> covers every other pyarrow data type a
  caller may hand to \<^verbatim>\<open>vector\<close> (\<^verbatim>\<open>pa.int32()\<close>, ...). Which of the two list types a call
  of \<^verbatim>\<open>pa.list_\<close> gives, and when it raises, is \<open>pa_list\<close> below.
\<close>

datatype pa_type =
    Int64 | Float64 | Utf8 | Bool | Binary | Float32
  | OtherArrow string
  | ListType pa_type
  | FixedSizeListType pa_type int
  | StructType "pa_field list"
and pa_field =
    Field (field_name: string) (field_type: pa_type) (field_nullable: bool)

datatype pa_schema = Schema "pa_field list"

section \<open>Python annotations\<close>

text \<open>
  \<open>mixin_cls\<close> are the classes below \<^verbatim>\<open>FixedSizeListMixin\<close> that the module defines: the
  abstract base itself, and the class \<^verbatim>\<open>FixedSizeList\<close> that a call \<^verbatim>\<open>vector(dim, value_type)\<close>
  creates, which closes over its two arguments.
\<close>

datatype mixin_cls = FixedSizeListMixin | FixedSizeList int pa_type

text \<open>The \<^verbatim>\<open>__origin__\<close> of a generic alias: \<^verbatim>\<open>list\<close>, \<^verbatim>\<open>typing.Union\<close>, or anything else.\<close>

datatype origin = OriginList | OriginUnion | OriginOther string

text \<open>
  A field annotation is one of
  \<^item> the six builtin classes the code compares against with \<^verbatim>\<open>==\<close>;
  \<^item> an instance of \<^verbatim>\<open>typing._GenericAlias\<close> (\<^verbatim>\<open>List[int]\<close>, \<^verbatim>\<open>Optional[str]\<close>, \<^verbatim>\<open>Dict[str, int]\<close>)
    with its \<^verbatim>\<open>__origin__\<close> and \<^verbatim>\<open>__args__\<close>;
  \<^item> an instance of \<^verbatim>\<open>types.GenericAlias\<close> (\<^verbatim>\<open>list[int]\<close>), which exists from Python 3.9 on,
    where the guard \<^verbatim>\<open>sys.version_info > (3, 9)\<close> of the source is true;
  \<^item> a class below \<^verbatim>\<open>pydantic.BaseModel\<close>, with its name, its \<^verbatim>\<open>model_fields\<close> in declaration
    order, and the \<^verbatim>\<open>FixedSizeListMixin\<close> class it also inherits from, if any;
  \<^item> a class below \<^verbatim>\<open>FixedSizeListMixin\<close> that is no model;
  \<^item> any other class (\<^verbatim>\<open>datetime\<close>, a subclass of \<^verbatim>\<open>int\<close>, ...);
  \<^item> any other object that is neither a class nor a generic alias (\<^verbatim>\<open>typing.Any\<close>, a bare
    \<^verbatim>\<open>typing.List\<close>, \<^verbatim>\<open>int | None\<close>, ...).

  A \<open>field_info\<close> is a \<^verbatim>\<open>pydantic.fields.FieldInfo\<close>; the code reads its \<^verbatim>\<open>annotation\<close> only.
  Annotations are finite trees, so a model class that contains itself is not a value of
  this type.
\<close>

datatype py_type =
    PyInt | PyFloat | PyStr | PyBool | PyBytes | NoneType
  | TypingAlias origin "py_type list"
  | BuiltinAlias origin "py_type list"
  | ModelClass pydantic_model
  | MixinClass mixin_cls
  | OtherClass string
  | OtherObject string
and pydantic_model =
    Model (cls_name: string) (model_fields: "(string \<times> field_info) list")
      (mixin_base: "mixin_cls option")
and field_info =
    FieldInfo (annotation: py_type)

text \<open>The exceptions that the two modules and the library calls they make can raise.\<close>

datatype exn =
  TypeError py_type | IndexError | NotImplementedError | ValueError | OverflowError

text \<open>
  \<^verbatim>\<open>pa.list_(value_type, list_size=-1)\<close> of pyarrow. Its second parameter is declared as a
  C \<^verbatim>\<open>int\<close>, so a Python integer outside 32 bits raises \<^verbatim>\<open>OverflowError\<close> when the call is
  entered. The body reads
  \<^verbatim>\<open>if list_size == -1: <list type> else: if list_size < 0: raise ValueError(...); <fixed-size list type>\<close>.
\<close>

definition pa_list :: "pa_type \<Rightarrow> int \<Rightarrow> exn + pa_type" where
  "pa_list value_type list_size =
     (if list_size < - (2 ^ 31) \<or> 2 ^ 31 \<le> list_size then Inl OverflowError
      else if list_size = - 1 then Inr (ListType value_type)
      else if list_size < 0 then Inl ValueError
      else Inr (FixedSizeListType value_type list_size))"

section \<open>The vector marker\<close>

fun dim :: "mixin_cls \<Rightarrow> exn + int" where
  "dim FixedSizeListMixin = Inl NotImplementedError"
| "dim (FixedSizeList d value_type) = Inr d"

fun value_arrow_type :: "mixin_cls \<Rightarrow> exn + pa_type" where
  "value_arrow_type FixedSizeListMixin = Inl NotImplementedError"
| "value_arrow_type (FixedSizeList d value_type) = Inr value_type"

text \<open>
  \<^verbatim>\<open>vector(dim, value_type=pa.float32())\<close>: the optional argument is \<open>None\<close> when the caller
  leaves it out.
\<close>

definition vector :: "int \<Rightarrow> pa_type option \<Rightarrow> mixin_cls" where
  "vector d value_type =
     FixedSizeList d (case value_type of None \<Rightarrow> Float32 | Some t \<Rightarrow> t)"

section \<open>Type translation\<close>

fun py_type_to_arrow_type :: "py_type \<Rightarrow> exn + pa_type" where
  "py_type_to_arrow_type py_type =
     (if py_type = PyInt then Inr Int64
      else if py_type = PyFloat then Inr Float64
      else if py_type = PyStr then Inr Utf8
      else if py_type = PyBool then Inr Bool
      else if py_type = PyBytes then Inr Binary
      else Inl (TypeError py_type))"

text \<open>
  \<open>generic_alias a\<close> is \<^verbatim>\<open>(a.__origin__, a.__args__)\<close> when \<^verbatim>\<open>a\<close> passes the test of
  \<^verbatim>\<open>_pydantic_to_arrow_type\<close>, an instance of \<^verbatim>\<open>_GenericAlias\<close> or of \<^verbatim>\<open>types.GenericAlias\<close>;
  \<open>typing_generic_alias\<close> is the narrower test of \<^verbatim>\<open>is_nullable\<close>.
\<close>

fun generic_alias :: "py_type \<Rightarrow> (origin \<times> py_type list) option" where
  "generic_alias (TypingAlias origin args) = Some (origin, args)"
| "generic_alias (BuiltinAlias origin args) = Some (origin, args)"
| "generic_alias _ = None"

fun typing_generic_alias :: "py_type \<Rightarrow> (origin \<times> py_type list) option" where
  "typing_generic_alias (TypingAlias origin args) = Some (origin, args)"
| "typing_generic_alias _ = None"

text \<open>
  \<open>base_model a\<close> is the model class when \<^verbatim>\<open>inspect.isclass(a) and issubclass(a, BaseModel)\<close>;
  \<open>fixed_size_list_mixin a\<close> is the marker class when
  \<^verbatim>\<open>inspect.isclass(a) and issubclass(a, FixedSizeListMixin)\<close>. A model class that also
  inherits from a marker class passes both tests.
\<close>

fun base_model :: "py_type \<Rightarrow> pydantic_model option" where
  "base_model (ModelClass model) = Some model"
| "base_model _ = None"

fun fixed_size_list_mixin :: "py_type \<Rightarrow> mixin_cls option" where
  "fixed_size_list_mixin (MixinClass cls) = Some cls"
| "fixed_size_list_mixin (ModelClass model) = mixin_base model"
| "fixed_size_list_mixin _ = None"

fun is_nullable :: "field_info \<Rightarrow> bool" where
  "is_nullable field =
     (case typing_generic_alias (annotation field) of
        Some (origin, args) \<Rightarrow>
          (if origin = OriginUnion \<and> length args = 2 \<and> args ! 1 = NoneType then True
           else False)
      | None \<Rightarrow> False)"

text \<open>
  The three functions of the source call each other; \<open>model_fields_loop\<close> is the
  \<^verbatim>\<open>for\<close> loop of \<^verbatim>\<open>_pydantic_model_to_fields\<close>, with the list \<^verbatim>\<open>fields\<close> it appends to. An
  exception leaves the loop and every caller at once.
\<close>

function pydantic_to_arrow_type :: "field_info \<Rightarrow> exn + pa_type"
  and pydantic_to_field :: "string \<Rightarrow> field_info \<Rightarrow> exn + pa_field"
  and pydantic_model_to_fields :: "pydantic_model \<Rightarrow> exn + pa_field list"
  and model_fields_loop :: "(string \<times> field_info) list \<Rightarrow> pa_field list \<Rightarrow> exn + pa_field list"
where
  "pydantic_to_arrow_type field =
     (case generic_alias (annotation field) of
        Some (origin, args) \<Rightarrow>
          (if origin = OriginList then
             (case args of
                [] \<Rightarrow> Inl IndexError
              | child # _ \<Rightarrow>
                  (case py_type_to_arrow_type child of
                     Inl e \<Rightarrow> Inl e
                   | Inr t \<Rightarrow> pa_list t (- 1)))
           else if origin = OriginUnion \<and> length args = 2 \<and> args ! 1 = NoneType then
             py_type_to_arrow_type (args ! 0)
           else py_type_to_arrow_type (annotation field))
      | None \<Rightarrow>
          (case base_model (annotation field) of
             Some model \<Rightarrow>
               (case pydantic_model_to_fields model of
                  Inl e \<Rightarrow> Inl e
                | Inr fields \<Rightarrow> Inr (StructType fields))
           | None \<Rightarrow>
               (case fixed_size_list_mixin (annotation field) of
                  Some cls \<Rightarrow>
                    (case value_arrow_type cls of
                       Inl e \<Rightarrow> Inl e
                     | Inr value_type \<Rightarrow>
                         (case dim cls of
                            Inl e \<Rightarrow> Inl e
                          | Inr d \<Rightarrow> pa_list value_type d))
                | None \<Rightarrow> py_type_to_arrow_type (annotation field))))"
| "pydantic_to_field name field =
     (case pydantic_to_arrow_type field of
        Inl e \<Rightarrow> Inl e
      | Inr dt \<Rightarrow> Inr (Field name dt (is_nullable field)))"
| "pydantic_model_to_fields model = model_fields_loop (model_fields model) []"
| "model_fields_loop [] fields = Inr fields"
| "model_fields_loop ((name, field) # rest) fields =
     (case pydantic_to_field name field of
        Inl e \<Rightarrow> Inl e
      | Inr f \<Rightarrow> model_fields_loop rest (fields @ [f]))"
  by pat_completeness auto

termination
proof (relation "measure (\<lambda>x. case x of
      Inl (Inl field) \<Rightarrow> 4 * size field
    | Inl (Inr (name, field)) \<Rightarrow> 4 * size field + 1
    | Inr (Inl model) \<Rightarrow> 4 * size model + 3
    | Inr (Inr (items, fields)) \<Rightarrow> 4 * size_list (size_prod (\<lambda>_. 0) size) items + 2)",
    goal_cases)
  case 1
  show ?case by simp
next
  case (2 field x2)
  then have "size x2 < size (annotation field)"
    by (cases "annotation field") auto
  then show ?case by (cases field) simp
next
  case (3 name field)
  show ?case by simp
next
  case (4 model)
  show ?case by (cases model) simp
next
  case (5 name field rest fields)
  show ?case by simp
next
  case (6 name field rest fields b)
  show ?case by simp
qed

definition pydantic_to_schema :: "pydantic_model \<Rightarrow> exn + pa_schema" where
  "pydantic_to_schema model =
     (case pydantic_model_to_fields model of
        Inl e \<Rightarrow> Inl e
      | Inr fields \<Rightarrow> Inr (Schema fields))"

section \<open>Validation of vector values\<close>

text \<open>
  \<^verbatim>\<open>FixedSizeList.__get_pydantic_core_schema__\<close> returns a pydantic-core schema, modelled as
  the term its three constructor calls build. The method exists in the class that
  \<^verbatim>\<open>vector\<close> creates, not in the abstract base.
\<close>

datatype core_schema =
    float_schema
  | list_schema (min_length: int) (max_length: int) (items_schema: core_schema)
  | no_info_after_validator_function mixin_cls core_schema

fun get_pydantic_core_schema :: "mixin_cls \<Rightarrow> core_schema option" where
  "get_pydantic_core_schema (FixedSizeList d value_type) =
     Some (no_info_after_validator_function (FixedSizeList d value_type)
       (list_schema d d float_schema))"
| "get_pydantic_core_schema FixedSizeListMixin = None"

text \<open>
  What pydantic-core does with such a schema is the library's part, taken from its
  documentation: a list schema accepts a list whose length lies between \<open>min_length\<close> and
  \<open>max_length\<close> and whose items the items schema accepts; an after-validator runs its
  function, here the class, which is a \<^verbatim>\<open>list\<close> subclass and takes any list, on a value the
  inner schema accepted. A value is a list of values or some other object, and which
  other objects the float schema accepts is the parameter \<open>is_float\<close>.
\<close>

datatype 'a py_value = Object 'a | ListValue "'a py_value list"

fun validate :: "('a \<Rightarrow> bool) \<Rightarrow> core_schema \<Rightarrow> 'a py_value \<Rightarrow> bool" where
  "validate is_float float_schema v =
     (case v of Object x \<Rightarrow> is_float x | ListValue xs \<Rightarrow> False)"
| "validate is_float (list_schema lo hi items) v =
     (case v of
        Object x \<Rightarrow> False
      | ListValue xs \<Rightarrow>
          lo \<le> int (length xs) \<and> int (length xs) \<le> hi \<and>
          list_all (validate is_float items) xs)"
| "validate is_float (no_info_after_validator_function cls schema) v =
     validate is_float schema v"

text \<open>
  Validating a value against a marker class, as pydantic does for a field of that type:
  \<open>None\<close> when the class brings no schema of its own.
\<close>

definition validate_vector :: "('a \<Rightarrow> bool) \<Rightarrow> mixin_cls \<Rightarrow> 'a py_value \<Rightarrow> bool option" where
  "validate_vector is_float cls v =
     (case get_pydantic_core_schema cls of
        None \<Rightarrow> None
      | Some schema \<Rightarrow> Some (validate is_float schema v))"

section \<open>URI helpers\<close>

text \<open>
  \<^verbatim>\<open>python/lancedb/util.py\<close> calls \<^verbatim>\<open>urllib.parse.urlparse\<close> of the Python standard library.
  The parser is modelled after CPython 3.11 (\<^verbatim>\<open>urlsplit\<close>, \<^verbatim>\<open>_splitnetloc\<close>,
  \<^verbatim>\<open>_check_bracketed_host\<close>, \<^verbatim>\<open>urlparse\<close>, \<^verbatim>\<open>_splitparams\<close>) on strings of characters
  with codes below 256. On these \<^verbatim>\<open>_checknetloc\<close> never raises, since NFKC normalisation
  of such a character yields none of \<^verbatim>\<open>/ ? # @ :\<close>. The one thing left to the library is
  \<^verbatim>\<open>ipaddress.ip_address\<close>: the set \<open>ipv6\<close> of the strings it reads as an IPv6 address is
  a parameter.
\<close>

record ParseResult =
  scheme :: string
  netloc :: string
  path :: string
  params :: string
  query :: string
  fragment :: string

definition scheme_chars :: string where
  "scheme_chars =
     ''abcdefghijklmnopqrstuvwxyz'' @ ''ABCDEFGHIJKLMNOPQRSTUVWXYZ'' @ ''0123456789'' @ ''+-.''"

definition uses_params :: "string list" where
  "uses_params =
     ['''', ''ftp'', ''hdl'', ''prospero'', ''http'', ''imap'', ''https'', ''shttp'', ''rtsp'',
      ''rtsps'', ''rtspu'', ''sip'', ''sips'', ''mms'', ''sftp'', ''tel'']"

text \<open>\<^verbatim>\<open>_WHATWG_C0_CONTROL_OR_SPACE\<close> holds the characters 0 to 32.\<close>

definition c0_control_or_space :: "char \<Rightarrow> bool" where
  "c0_control_or_space c = ((of_char c :: nat) \<le> 32)"

text \<open>\<^verbatim>\<open>_UNSAFE_URL_BYTES_TO_REMOVE\<close>: tab, carriage return, line feed.\<close>

definition unsafe_url_byte :: "char \<Rightarrow> bool" where
  "unsafe_url_byte c = ((of_char c :: nat) \<in> {9, 13, 10})"

text \<open>\<^verbatim>\<open>c.isascii() and c.isalpha()\<close>.\<close>

definition ascii_alpha :: "char \<Rightarrow> bool" where
  "ascii_alpha c =
     (let n = (of_char c :: nat) in (65 \<le> n \<and> n \<le> 90) \<or> (97 \<le> n \<and> n \<le> 122))"

definition hex_digit :: "char \<Rightarrow> bool" where
  "hex_digit c = (c \<in> set ''abcdefABCDEF0123456789'')"

text \<open>\<^verbatim>\<open>str.lower\<close>, on the characters of a scheme.\<close>

definition lower_char :: "char \<Rightarrow> char" where
  "lower_char c =
     (let n = (of_char c :: nat) in if 65 \<le> n \<and> n \<le> 90 then char_of (n + 32) else c)"

text \<open>\<^verbatim>\<open>s.find(c)\<close> and \<^verbatim>\<open>s.rfind(c)\<close>, with \<open>None\<close> for \<^verbatim>\<open>-1\<close>; \<^verbatim>\<open>s.find(c, start)\<close>.\<close>

definition find :: "char \<Rightarrow> string \<Rightarrow> nat option" where
  "find c s = (if c \<in> set s then Some (length (takeWhile (\<lambda>x. x \<noteq> c) s)) else None)"

definition rfind :: "char \<Rightarrow> string \<Rightarrow> nat option" where
  "rfind c s =
     (if c \<in> set s then Some (length s - 1 - length (takeWhile (\<lambda>x. x \<noteq> c) (rev s)))
      else None)"

definition find_from :: "char \<Rightarrow> string \<Rightarrow> nat \<Rightarrow> nat option" where
  "find_from c s start =
     (case find c (drop start s) of None \<Rightarrow> None | Some j \<Rightarrow> Some (start + j))"

definition splitnetloc :: "string \<Rightarrow> nat \<Rightarrow> string \<times> string" where
  "splitnetloc url start =
     (let delim = fold (\<lambda>c delim.
                    case find_from c url start of
                      None \<Rightarrow> delim
                    | Some wdelim \<Rightarrow> min delim wdelim) ''/?#'' (length url)
      in (drop start (take delim url), drop delim url))"

text \<open>
  \<^verbatim>\<open>_check_bracketed_host\<close>: \<open>True\<close> when it returns, \<open>False\<close> when it raises
  \<^verbatim>\<open>ValueError\<close>. The regular expression asks for \<^verbatim>\<open>v\<close>, one or more hexadecimal digits,
  a dot, and one or more characters other than a line feed.
\<close>

definition check_bracketed_host :: "string set \<Rightarrow> string \<Rightarrow> bool" where
  "check_bracketed_host ipv6 hostname =
     (if take 1 hostname = ''v'' then
        (let digits = takeWhile hex_digit (drop 1 hostname);
             rest = dropWhile hex_digit (drop 1 hostname)
         in digits \<noteq> [] \<and> take 1 rest = ''.'' \<and> drop 1 rest \<noteq> [] \<and>
            list_all (\<lambda>c. (of_char c :: nat) \<noteq> 10) (drop 1 rest))
      else hostname \<in> ipv6)"

text \<open>\<^verbatim>\<open>s.partition(c)\<close>: the parts before and after the first \<^verbatim>\<open>c\<close>.\<close>

definition partition_before :: "char \<Rightarrow> string \<Rightarrow> string" where
  "partition_before c s = takeWhile (\<lambda>x. x \<noteq> c) s"

definition partition_after :: "char \<Rightarrow> string \<Rightarrow> string" where
  "partition_after c s = drop 1 (dropWhile (\<lambda>x. x \<noteq> c) s)"

definition urlsplit ::
  "string set \<Rightarrow> string \<Rightarrow> exn + (string \<times> string \<times> string \<times> string \<times> string)" where
  "urlsplit ipv6 url0 =
     (let url1 = dropWhile c0_control_or_space url0;
          url2 = filter (\<lambda>c. \<not> unsafe_url_byte c) url1;
          (scheme1, url3) =
            (case find CHR '':'' url2 of
               None \<Rightarrow> ('''', url2)
             | Some i \<Rightarrow>
                 if 0 < i \<and> ascii_alpha (hd url2) \<and>
                    list_all (\<lambda>c. c \<in> set scheme_chars) (take i url2)
                 then (map lower_char (take i url2), drop (i + 1) url2)
                 else ('''', url2));
          (netloc1, url4) =
            (if take 2 url3 = ''//'' then splitnetloc url3 2 else ('''', url3));
          (url5, fragment1) =
            (if CHR ''#'' \<in> set url4
             then (partition_before CHR ''#'' url4, partition_after CHR ''#'' url4)
             else (url4, ''''));
          (url6, query1) =
            (if CHR ''?'' \<in> set url5
             then (partition_before CHR ''?'' url5, partition_after CHR ''?'' url5)
             else (url5, ''''))
      in if take 2 url3 = ''//'' \<and>
            ((CHR ''['' \<in> set netloc1 \<and> CHR '']'' \<notin> set netloc1) \<or>
             (CHR '']'' \<in> set netloc1 \<and> CHR ''['' \<notin> set netloc1))
         then Inl ValueError
         else if take 2 url3 = ''//'' \<and> CHR ''['' \<in> set netloc1 \<and> CHR '']'' \<in> set netloc1 \<and>
            \<not> check_bracketed_host ipv6
                (partition_before CHR '']'' (partition_after CHR ''['' netloc1))
         then Inl ValueError
         else Inr (scheme1, netloc1, url6, query1, fragment1))"

definition splitparams :: "string \<Rightarrow> string \<times> string" where
  "splitparams url =
     (case (case rfind CHR ''/'' url of
              Some slash \<Rightarrow> find_from CHR '';'' url slash
            | None \<Rightarrow> find CHR '';'' url) of
        None \<Rightarrow> (url, '''')
      | Some i \<Rightarrow> (take i url, drop (i + 1) url))"

definition urlparse :: "string set \<Rightarrow> string \<Rightarrow> exn + ParseResult" where
  "urlparse ipv6 url =
     (case urlsplit ipv6 url of
        Inl e \<Rightarrow> Inl e
      | Inr (scheme1, netloc1, url1, query1, fragment1) \<Rightarrow>
          (let (url2, params1) =
                 (if scheme1 \<in> set uses_params \<and> CHR '';'' \<in> set url1 then splitparams url1
                  else (url1, ''''))
           in Inr \<lparr>scheme = scheme1, netloc = netloc1, path = url2, params = params1,
                   query = query1, fragment = fragment1\<rparr>))"

definition get_uri_scheme :: "string set \<Rightarrow> string \<Rightarrow> exn + string" where
  "get_uri_scheme ipv6 uri =
     (case urlparse ipv6 uri of
        Inl e \<Rightarrow> Inl e
      | Inr parsed \<Rightarrow>
          Inr (if scheme parsed = '''' then ''file''
               else if scheme parsed \<in> set [''s3a'', ''s3n''] then ''s3''
               else if length (scheme parsed) = 1 then ''file''
               else scheme parsed))"

definition get_uri_location :: "string set \<Rightarrow> string \<Rightarrow> exn + string" where
  "get_uri_location ipv6 uri =
     (case urlparse ipv6 uri of
        Inl e \<Rightarrow> Inl e
      | Inr parsed \<Rightarrow>
          Inr (if netloc parsed = '''' then path parsed
               else netloc parsed @ path parsed))"

section \<open>The specification's reading of nullability\<close>

text \<open>
  The specification calls a declared type nullable when it is `a two-armed union where
  one arm is the null/none type'. \<open>two_armed_union_with_none\<close> follows these words, for
  comparison with \<open>is_nullable\<close>: it does not say which arm.
\<close>

fun two_armed_union_with_none :: "py_type \<Rightarrow> bool" where
  "two_armed_union_with_none (TypingAlias origin args) =
     (origin = OriginUnion \<and> length args = 2 \<and> NoneType \<in> set args)"
| "two_armed_union_with_none _ = False"

section \<open>Scalar types\<close>

declare pydantic_to_arrow_type.simps [simp del]

text \<open>
  C3. \<open>py_type_to_arrow_type\<close> (the specification's scalarType) maps \<^verbatim>\<open>int\<close> to Int64,
  \<^verbatim>\<open>float\<close> to Float64, \<^verbatim>\<open>str\<close> to Utf8, \<^verbatim>\<open>bool\<close> to Bool and \<^verbatim>\<open>bytes\<close> to Binary, each to
  its own type with no widening, and for every other input it raises the \<^verbatim>\<open>TypeError\<close>
  that names that input.
\<close>

theorem scalar_type_table:
  "py_type_to_arrow_type PyInt = Inr Int64 \<and>
   py_type_to_arrow_type PyFloat = Inr Float64 \<and>
   py_type_to_arrow_type PyStr = Inr Utf8 \<and>
   py_type_to_arrow_type PyBool = Inr Bool \<and>
   py_type_to_arrow_type PyBytes = Inr Binary \<and>
   (\<forall>t. t \<notin> {PyInt, PyFloat, PyStr, PyBool, PyBytes} \<longrightarrow>
        py_type_to_arrow_type t = Inl (TypeError t))"
  by simp

theorem scalar_type_table_witness:
  "OtherClass ''datetime'' \<notin> {PyInt, PyFloat, PyStr, PyBool, PyBytes} \<and>
   py_type_to_arrow_type (OtherClass ''datetime'') = Inl (TypeError (OtherClass ''datetime'')) \<and>
   py_type_to_arrow_type (TypingAlias OriginList [PyInt]) =
     Inl (TypeError (TypingAlias OriginList [PyInt]))"
  using scalar_type_table by simp

section \<open>Nullability\<close>

text \<open>
  C2, as the code has it. \<open>is_nullable\<close> returns true exactly for an annotation that is a
  \<^verbatim>\<open>typing\<close> union of two arms whose second arm is \<^verbatim>\<open>NoneType\<close>, the shape of
  \<^verbatim>\<open>Optional[X]\<close>; for every other annotation, any other union among them, it returns
  false.
\<close>

theorem is_nullable_second_arm:
  "is_nullable field \<longleftrightarrow>
     (\<exists>inner. annotation field = TypingAlias OriginUnion [inner, NoneType])"
proof (cases "annotation field")
  case (TypingAlias origin args)
  have "length args = 2 \<and> args ! 1 = NoneType \<longleftrightarrow> (\<exists>inner. args = [inner, NoneType])"
  proof
    assume h: "length args = 2 \<and> args ! 1 = NoneType"
    then obtain a b where "args = [a, b]"
      by (cases args; cases "tl args") auto
    with h show "\<exists>inner. args = [inner, NoneType]" by simp
  next
    assume "\<exists>inner. args = [inner, NoneType]"
    then show "length args = 2 \<and> args ! 1 = NoneType" by auto
  qed
  with TypingAlias show ?thesis by auto
qed simp_all

theorem is_nullable_second_arm_witness:
  "is_nullable (FieldInfo (TypingAlias OriginUnion [PyStr, NoneType])) \<and>
   \<not> is_nullable (FieldInfo (TypingAlias OriginUnion [PyInt, PyStr, NoneType])) \<and>
   \<not> is_nullable (FieldInfo PyStr)"
  using is_nullable_second_arm [of "FieldInfo (TypingAlias OriginUnion [PyStr, NoneType])"]
    is_nullable_second_arm [of "FieldInfo (TypingAlias OriginUnion [PyInt, PyStr, NoneType])"]
    is_nullable_second_arm [of "FieldInfo PyStr"]
  by simp

text \<open>
  \<^verbatim>\<open>Union[None, int]\<close> keeps its arms in the order written, \<^verbatim>\<open>(NoneType, int)\<close>: a two-armed
  union with the none type as one arm, for which \<open>is_nullable\<close> returns false.
\<close>

theorem is_nullable_none_first_counterexample:
  "two_armed_union_with_none (TypingAlias OriginUnion [NoneType, PyInt]) \<and>
   \<not> is_nullable (FieldInfo (TypingAlias OriginUnion [NoneType, PyInt]))"
  by simp

section \<open>Translating a model\<close>

text \<open>
  The loop over the declared fields: it returns the descriptors of all fields when every
  field type translates, and the exception of the first field that does not, whatever
  follows it.
\<close>

lemma model_fields_loop_returns:
  "list_all (\<lambda>(name, field). \<not> isl (pydantic_to_arrow_type field)) items \<Longrightarrow>
   model_fields_loop items acc =
     Inr (acc @ map (\<lambda>(name, field).
            Field name (projr (pydantic_to_arrow_type field)) (is_nullable field)) items)"
proof (induction items arbitrary: acc)
  case Nil
  show ?case by simp
next
  case (Cons item rest)
  obtain name field where item: "item = (name, field)" by (cases item)
  from Cons.prems item obtain t where t: "pydantic_to_arrow_type field = Inr t"
    by (cases "pydantic_to_arrow_type field") auto
  from Cons.prems have "list_all (\<lambda>(name, field). \<not> isl (pydantic_to_arrow_type field)) rest"
    by simp
  from Cons.IH [OF this] item t show ?case by simp
qed

lemma model_fields_loop_raises:
  "list_all (\<lambda>(name, field). \<not> isl (pydantic_to_arrow_type field)) before \<Longrightarrow>
   pydantic_to_arrow_type field = Inl e \<Longrightarrow>
   model_fields_loop (before @ (name, field) # rest) acc = Inl e"
proof (induction before arbitrary: acc)
  case Nil
  then show ?case by simp
next
  case (Cons item before)
  obtain n f where item: "item = (n, f)" by (cases item)
  from Cons.prems item obtain t where t: "pydantic_to_arrow_type f = Inr t"
    by (cases "pydantic_to_arrow_type f") auto
  from Cons.prems have "list_all (\<lambda>(name, field). \<not> isl (pydantic_to_arrow_type field)) before"
    by simp
  from Cons.IH [OF this Cons.prems(2)] item t show ?case by simp
qed

lemma model_fields_loop_all_translate:
  "model_fields_loop items acc = Inr out \<Longrightarrow>
   list_all (\<lambda>(name, field). \<not> isl (pydantic_to_arrow_type field)) items"
proof (induction items arbitrary: acc)
  case Nil
  show ?case by simp
next
  case (Cons item rest)
  obtain name field where item: "item = (name, field)" by (cases item)
  show ?case
  proof (cases "pydantic_to_arrow_type field")
    case (Inl e)
    with Cons.prems item show ?thesis by simp
  next
    case (Inr t)
    with Cons.prems item
    have "model_fields_loop rest (acc @ [Field name t (is_nullable field)]) = Inr out"
      by simp
    from Cons.IH [OF this] item Inr show ?thesis by simp
  qed
qed

text \<open>
  C4. For every model whose field types all translate, \<open>pydantic_model_to_fields\<close>
  (modelToFields) returns one descriptor per declared field, in declaration order, made of
  the field's name, its translated type and \<open>is_nullable\<close> of the field; it returns a
  list in no other case; \<open>pydantic_to_schema\<close> (modelToSchema) is the same list handed to
  \<^verbatim>\<open>pa.schema\<close>. The model with the fields \<^verbatim>\<open>id: int\<close>, \<^verbatim>\<open>s: Optional[str]\<close>,
  \<^verbatim>\<open>vec: List[float]\<close> and \<^verbatim>\<open>inner\<close>, a model with \<^verbatim>\<open>a: str\<close> and \<^verbatim>\<open>b: Optional[float]\<close>,
  translates to the list the specification gives.
\<close>

theorem model_to_fields_in_order:
  "(\<forall>model.
      list_all (\<lambda>(name, field). \<not> isl (pydantic_to_arrow_type field)) (model_fields model) \<longrightarrow>
      pydantic_model_to_fields model =
        Inr (map (\<lambda>(name, field).
               Field name (projr (pydantic_to_arrow_type field)) (is_nullable field))
             (model_fields model))) \<and>
   (\<forall>model out. pydantic_model_to_fields model = Inr out \<longrightarrow>
      list_all (\<lambda>(name, field). \<not> isl (pydantic_to_arrow_type field)) (model_fields model)) \<and>
   (\<forall>model. pydantic_to_schema model =
      (case pydantic_model_to_fields model of Inl e \<Rightarrow> Inl e | Inr out \<Rightarrow> Inr (Schema out))) \<and>
   pydantic_to_schema
     (Model ''FooModel''
        [(''id'', FieldInfo PyInt),
         (''s'', FieldInfo (TypingAlias OriginUnion [PyStr, NoneType])),
         (''vec'', FieldInfo (TypingAlias OriginList [PyFloat])),
         (''inner'', FieldInfo (ModelClass (Model ''InnerModel''
            [(''a'', FieldInfo PyStr),
             (''b'', FieldInfo (TypingAlias OriginUnion [PyFloat, NoneType]))] None)))] None) =
     Inr (Schema
       [Field ''id'' Int64 False,
        Field ''s'' Utf8 True,
        Field ''vec'' (ListType Float64) False,
        Field ''inner'' (StructType [Field ''a'' Utf8 False, Field ''b'' Float64 True]) False])"
proof (intro conjI allI impI)
  fix model
  assume "list_all (\<lambda>(name, field). \<not> isl (pydantic_to_arrow_type field)) (model_fields model)"
  from model_fields_loop_returns [OF this, of "[]"]
  show "pydantic_model_to_fields model =
        Inr (map (\<lambda>(name, field).
               Field name (projr (pydantic_to_arrow_type field)) (is_nullable field))
             (model_fields model))"
    by simp
next
  fix model out
  assume "pydantic_model_to_fields model = Inr out"
  then show "list_all (\<lambda>(name, field). \<not> isl (pydantic_to_arrow_type field)) (model_fields model)"
    using model_fields_loop_all_translate [of "model_fields model" "[]" out] by simp
next
  fix model
  show "pydantic_to_schema model =
      (case pydantic_model_to_fields model of Inl e \<Rightarrow> Inl e | Inr out \<Rightarrow> Inr (Schema out))"
    by (simp add: pydantic_to_schema_def)
next
  show "pydantic_to_schema
     (Model ''FooModel''
        [(''id'', FieldInfo PyInt),
         (''s'', FieldInfo (TypingAlias OriginUnion [PyStr, NoneType])),
         (''vec'', FieldInfo (TypingAlias OriginList [PyFloat])),
         (''inner'', FieldInfo (ModelClass (Model ''InnerModel''
            [(''a'', FieldInfo PyStr),
             (''b'', FieldInfo (TypingAlias OriginUnion [PyFloat, NoneType]))] None)))] None) =
     Inr (Schema
       [Field ''id'' Int64 False,
        Field ''s'' Utf8 True,
        Field ''vec'' (ListType Float64) False,
        Field ''inner'' (StructType [Field ''a'' Utf8 False, Field ''b'' Float64 True]) False])"
    by (simp add: pydantic_to_schema_def pydantic_to_arrow_type.simps pa_list_def)
qed

theorem model_to_fields_in_order_witness:
  "list_all (\<lambda>(name, field). \<not> isl (pydantic_to_arrow_type field))
     (model_fields (Model ''Item''
        [(''id'', FieldInfo PyInt), (''tags'', FieldInfo (BuiltinAlias OriginList [PyStr]))] None)) \<and>
   pydantic_model_to_fields (Model ''Item''
        [(''id'', FieldInfo PyInt), (''tags'', FieldInfo (BuiltinAlias OriginList [PyStr]))] None) =
     Inr [Field ''id'' Int64 False, Field ''tags'' (ListType Utf8) False]"
proof -
  have ok: "list_all (\<lambda>(name, field). \<not> isl (pydantic_to_arrow_type field))
     (model_fields (Model ''Item''
        [(''id'', FieldInfo PyInt), (''tags'', FieldInfo (BuiltinAlias OriginList [PyStr]))] None))"
    by (simp add: pydantic_to_arrow_type.simps pa_list_def)
  with model_to_fields_in_order show ?thesis
    by (simp add: pydantic_to_arrow_type.simps pa_list_def)
qed

section \<open>Dispatch on the annotation\<close>

text \<open>
  C1, as the code has it. \<open>pydantic_to_arrow_type\<close> (fieldType) tries its rules in this
  order, and the first that matches decides:
  \<^enum> a list alias with element type \<open>child\<close>, from \<^verbatim>\<open>typing\<close> or builtin, gives the list of
    the scalar type of \<open>child\<close>, and the scalar translation's error when \<open>child\<close> is no
    scalar;
  \<^enum> a union alias of \<open>inner\<close> and \<^verbatim>\<open>NoneType\<close> gives the scalar type of \<open>inner\<close>;
  \<^enum> a model class gives the struct of its translated fields, also when the class
    inherits from a marker class and so passes the test of the next rule;
  \<^enum> a class that \<open>vector\<close> made hands its value type and its dimension to \<^verbatim>\<open>pa.list_\<close>:
    a dimension from 1 to \<open>2^31 - 1\<close> gives the fixed-size list, the dimension \<open>-1\<close> the
    variable-size list, a dimension from \<open>2^31\<close> on \<^verbatim>\<open>OverflowError\<close>, a dimension from
    \<open>-2^31\<close> to \<open>-2\<close> \<^verbatim>\<open>ValueError\<close>; the abstract marker base, which has no dimension,
    gives \<^verbatim>\<open>NotImplementedError\<close>;
  \<^enum> every annotation that none of the four tests accepts goes to the scalar translation.
\<close>

theorem field_type_precedence:
  "(\<forall>child rest.
      pydantic_to_arrow_type (FieldInfo (TypingAlias OriginList (child # rest))) =
        (case py_type_to_arrow_type child of Inl e \<Rightarrow> Inl e | Inr t \<Rightarrow> Inr (ListType t)) \<and>
      pydantic_to_arrow_type (FieldInfo (BuiltinAlias OriginList (child # rest))) =
        (case py_type_to_arrow_type child of Inl e \<Rightarrow> Inl e | Inr t \<Rightarrow> Inr (ListType t))) \<and>
   (\<forall>inner.
      pydantic_to_arrow_type (FieldInfo (TypingAlias OriginUnion [inner, NoneType])) =
        py_type_to_arrow_type inner \<and>
      pydantic_to_arrow_type (FieldInfo (BuiltinAlias OriginUnion [inner, NoneType])) =
        py_type_to_arrow_type inner) \<and>
   (\<forall>model.
      pydantic_to_arrow_type (FieldInfo (ModelClass model)) =
        (case pydantic_model_to_fields model of
           Inl e \<Rightarrow> Inl e
         | Inr out \<Rightarrow> Inr (StructType out))) \<and>
   (\<forall>name items cls.
      fixed_size_list_mixin (ModelClass (Model name items (Some cls))) = Some cls \<and>
      pydantic_to_arrow_type (FieldInfo (ModelClass (Model name items (Some cls)))) =
        (case pydantic_model_to_fields (Model name items (Some cls)) of
           Inl e \<Rightarrow> Inl e
         | Inr out \<Rightarrow> Inr (StructType out))) \<and>
   (\<forall>d value_type. 0 < d \<and> d < 2 ^ 31 \<longrightarrow>
      pydantic_to_arrow_type (FieldInfo (MixinClass (FixedSizeList d value_type))) =
        Inr (FixedSizeListType value_type d)) \<and>
   (\<forall>value_type.
      pydantic_to_arrow_type (FieldInfo (MixinClass (FixedSizeList (- 1) value_type))) =
        Inr (ListType value_type)) \<and>
   (\<forall>d value_type. 2 ^ 31 \<le> d \<longrightarrow>
      pydantic_to_arrow_type (FieldInfo (MixinClass (FixedSizeList d value_type))) =
        Inl OverflowError) \<and>
   (\<forall>d value_type. - (2 ^ 31) \<le> d \<and> d < - 1 \<longrightarrow>
      pydantic_to_arrow_type (FieldInfo (MixinClass (FixedSizeList d value_type))) =
        Inl ValueError) \<and>
   pydantic_to_arrow_type (FieldInfo (MixinClass FixedSizeListMixin)) = Inl NotImplementedError \<and>
   (\<forall>a.
      (case generic_alias a of
         Some (origin, args) \<Rightarrow>
           origin \<noteq> OriginList \<and>
           \<not> (origin = OriginUnion \<and> length args = 2 \<and> args ! 1 = NoneType)
       | None \<Rightarrow> base_model a = None \<and> fixed_size_list_mixin a = None) \<longrightarrow>
      pydantic_to_arrow_type (FieldInfo a) = py_type_to_arrow_type a)"
proof (intro conjI allI impI)
  fix a
  assume h: "case generic_alias a of
         Some (origin, args) \<Rightarrow>
           origin \<noteq> OriginList \<and>
           \<not> (origin = OriginUnion \<and> length args = 2 \<and> args ! 1 = NoneType)
       | None \<Rightarrow> base_model a = None \<and> fixed_size_list_mixin a = None"
  show "pydantic_to_arrow_type (FieldInfo a) = py_type_to_arrow_type a"
  proof (cases "generic_alias a")
    case None
    with h show ?thesis
      by (simp add: pydantic_to_arrow_type.simps del: py_type_to_arrow_type.simps)
  next
    case (Some p)
    with h show ?thesis
      by (cases p)
        (auto simp add: pydantic_to_arrow_type.simps simp del: py_type_to_arrow_type.simps)
  qed
qed (simp_all add: pydantic_to_arrow_type.simps pa_list_def
       del: py_type_to_arrow_type.simps pydantic_model_to_fields.simps split: sum.split)

theorem field_type_precedence_witness:
  "(case generic_alias (TypingAlias OriginUnion [PyInt, PyStr]) of
      Some (origin, args) \<Rightarrow>
        origin \<noteq> OriginList \<and>
        \<not> (origin = OriginUnion \<and> length args = 2 \<and> args ! 1 = NoneType)
    | None \<Rightarrow> base_model (TypingAlias OriginUnion [PyInt, PyStr]) = None \<and>
        fixed_size_list_mixin (TypingAlias OriginUnion [PyInt, PyStr]) = None) \<and>
   pydantic_to_arrow_type (FieldInfo (TypingAlias OriginUnion [PyInt, PyStr])) =
     Inl (TypeError (TypingAlias OriginUnion [PyInt, PyStr])) \<and>
   pydantic_to_arrow_type (FieldInfo (TypingAlias OriginList [TypingAlias OriginList [PyInt]])) =
     Inl (TypeError (TypingAlias OriginList [PyInt])) \<and>
   pydantic_to_arrow_type (FieldInfo (TypingAlias OriginUnion [PyStr, NoneType])) = Inr Utf8 \<and>
   pydantic_to_arrow_type
     (FieldInfo (ModelClass (Model ''Both'' [(''x'', FieldInfo PyInt)] (Some (FixedSizeList 3 Float32))))) =
     Inr (StructType [Field ''x'' Int64 False]) \<and>
   pydantic_to_arrow_type (FieldInfo PyBytes) = Inr Binary \<and>
   (0::int) < 3 \<and> (3::int) < 2 ^ 31 \<and>
   pydantic_to_arrow_type (FieldInfo (MixinClass (FixedSizeList 3 Float32))) =
     Inr (FixedSizeListType Float32 3) \<and>
   (2::int) ^ 31 \<le> 4294967296 \<and>
   pydantic_to_arrow_type (FieldInfo (MixinClass (FixedSizeList 4294967296 Float32))) =
     Inl OverflowError \<and>
   - (2 ^ 31) \<le> (- 2::int) \<and> (- 2::int) < - 1 \<and>
   pydantic_to_arrow_type (FieldInfo (MixinClass (FixedSizeList (- 2) Float32))) = Inl ValueError"
proof -
  have h: "case generic_alias (TypingAlias OriginUnion [PyInt, PyStr]) of
      Some (origin, args) \<Rightarrow>
        origin \<noteq> OriginList \<and>
        \<not> (origin = OriginUnion \<and> length args = 2 \<and> args ! 1 = NoneType)
    | None \<Rightarrow> base_model (TypingAlias OriginUnion [PyInt, PyStr]) = None \<and>
        fixed_size_list_mixin (TypingAlias OriginUnion [PyInt, PyStr]) = None"
    by simp
  have s: "case generic_alias PyBytes of
      Some (origin, args) \<Rightarrow>
        origin \<noteq> OriginList \<and>
        \<not> (origin = OriginUnion \<and> length args = 2 \<and> args ! 1 = NoneType)
    | None \<Rightarrow> base_model PyBytes = None \<and> fixed_size_list_mixin PyBytes = None"
    by simp
  have d3: "(0::int) < 3 \<and> (3::int) < 2 ^ 31"
    and big: "(2::int) ^ 31 \<le> 4294967296"
    and neg: "- (2 ^ 31) \<le> (- 2::int) \<and> (- 2::int) < - 1"
    by simp_all
  from field_type_precedence have
    "pydantic_to_arrow_type (FieldInfo (TypingAlias OriginUnion [PyInt, PyStr])) =
       py_type_to_arrow_type (TypingAlias OriginUnion [PyInt, PyStr])"
    and "pydantic_to_arrow_type (FieldInfo PyBytes) = py_type_to_arrow_type PyBytes"
    and "pydantic_to_arrow_type (FieldInfo (TypingAlias OriginList [TypingAlias OriginList [PyInt]])) =
       (case py_type_to_arrow_type (TypingAlias OriginList [PyInt]) of
          Inl e \<Rightarrow> Inl e | Inr t \<Rightarrow> Inr (ListType t))"
    and "pydantic_to_arrow_type (FieldInfo (TypingAlias OriginUnion [PyStr, NoneType])) =
       py_type_to_arrow_type PyStr"
    and "pydantic_to_arrow_type
     (FieldInfo (ModelClass (Model ''Both'' [(''x'', FieldInfo PyInt)] (Some (FixedSizeList 3 Float32))))) =
       (case pydantic_model_to_fields (Model ''Both'' [(''x'', FieldInfo PyInt)] (Some (FixedSizeList 3 Float32))) of
           Inl e \<Rightarrow> Inl e
         | Inr out \<Rightarrow> Inr (StructType out))"
    and "pydantic_to_arrow_type (FieldInfo (MixinClass (FixedSizeList 3 Float32))) =
       Inr (FixedSizeListType Float32 3)"
    and "pydantic_to_arrow_type (FieldInfo (MixinClass (FixedSizeList 4294967296 Float32))) =
       Inl OverflowError"
    and "pydantic_to_arrow_type (FieldInfo (MixinClass (FixedSizeList (- 2) Float32))) = Inl ValueError"
    using h s d3 big neg by blast+
  then show ?thesis using h
    by (simp add: pydantic_to_arrow_type.simps [of "FieldInfo PyInt"])
qed

text \<open>
  \<^verbatim>\<open>vector(2147483648)\<close> carries the marker and a positive dimension, and its translation
  raises \<^verbatim>\<open>OverflowError\<close> instead of giving a fixed-size list.
\<close>

theorem vector_dimension_counterexample:
  "pydantic_to_arrow_type (FieldInfo (MixinClass (vector 2147483648 None))) = Inl OverflowError"
  by (simp add: vector_def pydantic_to_arrow_type.simps pa_list_def)

section \<open>Errors\<close>

lemma py_type_to_arrow_type_raises:
  "py_type_to_arrow_type t = Inl e \<Longrightarrow> e = TypeError t"
  by (simp split: if_splits)

lemma pa_list_raises:
  "pa_list value_type d = Inl e \<Longrightarrow>
     (e = ValueError \<and> d \<le> 0 \<and> d \<noteq> - 1) \<or> (e = OverflowError \<and> (d < - (2 ^ 31) \<or> 2 ^ 31 \<le> d))"
  by (auto simp: pa_list_def split: if_splits)

text \<open>
  Where the exception of one field comes from: from the nested model, when the declared
  type is a model class; from the marker class otherwise; from the scalar translation in
  every other case but that of a list alias without arguments.
\<close>

lemma field_raises:
  assumes "pydantic_to_arrow_type field = Inl e" and "e \<noteq> IndexError"
  shows "case annotation field of
           ModelClass model \<Rightarrow> pydantic_model_to_fields model = Inl e
         | MixinClass FixedSizeListMixin \<Rightarrow> e = NotImplementedError
         | MixinClass (FixedSizeList d value_type) \<Rightarrow>
             (e = ValueError \<and> d \<le> 0 \<and> d \<noteq> - 1) \<or>
             (e = OverflowError \<and> (d < - (2 ^ 31) \<or> 2 ^ 31 \<le> d))
         | _ \<Rightarrow> (\<exists>t. e = TypeError t \<and> py_type_to_arrow_type t = Inl (TypeError t))"
proof (cases "annotation field")
  case (ModelClass model)
  with assms show ?thesis
    by (auto simp: pydantic_to_arrow_type.simps [of field]
        simp del: pydantic_model_to_fields.simps split: sum.splits)
next
  case (MixinClass cls)
  show ?thesis
  proof (cases cls)
    case FixedSizeListMixin
    with MixinClass assms show ?thesis
      by (simp add: pydantic_to_arrow_type.simps [of field])
  next
    case (FixedSizeList d value_type)
    with MixinClass assms have "pa_list value_type d = Inl e"
      by (simp add: pydantic_to_arrow_type.simps [of field])
    from pa_list_raises [OF this] MixinClass FixedSizeList show ?thesis by simp
  qed
next
  case (TypingAlias origin args)
  with assms have "\<exists>t. py_type_to_arrow_type t = Inl e"
    by (auto simp: pydantic_to_arrow_type.simps [of field] pa_list_def
        simp del: py_type_to_arrow_type.simps split: if_splits list.splits sum.splits)
  with TypingAlias show ?thesis
    using py_type_to_arrow_type_raises by fastforce
next
  case (BuiltinAlias origin args)
  with assms have "\<exists>t. py_type_to_arrow_type t = Inl e"
    by (auto simp: pydantic_to_arrow_type.simps [of field] pa_list_def
        simp del: py_type_to_arrow_type.simps split: if_splits list.splits sum.splits)
  with BuiltinAlias show ?thesis
    using py_type_to_arrow_type_raises by fastforce
qed (use assms in \<open>auto simp: pydantic_to_arrow_type.simps [of field]\<close>)

lemma model_fields_loop_raised_by_field:
  "model_fields_loop items acc = Inl e \<Longrightarrow>
   \<exists>name field. (name, field) \<in> set items \<and> pydantic_to_arrow_type field = Inl e"
proof (induction items arbitrary: acc)
  case Nil
  then show ?case by simp
next
  case (Cons item rest)
  obtain name field where item: "item = (name, field)" by (cases item)
  show ?case
  proof (cases "pydantic_to_arrow_type field")
    case (Inl e')
    with Cons.prems item have "e' = e" by simp
    with Inl item show ?thesis by auto
  next
    case (Inr t)
    with Cons.prems item
    have "model_fields_loop rest (acc @ [Field name t (is_nullable field)]) = Inl e"
      by simp
    from Cons.IH [OF this] show ?thesis by auto
  qed
qed

lemma translation_raises:
  "pydantic_to_arrow_type field = Inl e \<Longrightarrow>
     e = IndexError \<or> e = NotImplementedError \<or> e = ValueError \<or> e = OverflowError \<or>
     (\<exists>t. e = TypeError t \<and> py_type_to_arrow_type t = Inl (TypeError t))"
  "pydantic_to_field name field = Inl e \<Longrightarrow>
     e = IndexError \<or> e = NotImplementedError \<or> e = ValueError \<or> e = OverflowError \<or>
     (\<exists>t. e = TypeError t \<and> py_type_to_arrow_type t = Inl (TypeError t))"
  "pydantic_model_to_fields model = Inl e \<Longrightarrow>
     e = IndexError \<or> e = NotImplementedError \<or> e = ValueError \<or> e = OverflowError \<or>
     (\<exists>t. e = TypeError t \<and> py_type_to_arrow_type t = Inl (TypeError t))"
  "model_fields_loop items acc = Inl e \<Longrightarrow>
     e = IndexError \<or> e = NotImplementedError \<or> e = ValueError \<or> e = OverflowError \<or>
     (\<exists>t. e = TypeError t \<and> py_type_to_arrow_type t = Inl (TypeError t))"
proof (induction field and name field and model and items acc
    rule: pydantic_to_arrow_type_pydantic_to_field_pydantic_model_to_fields_model_fields_loop.induct)
  case (1 field)
  show ?case
  proof (cases "e = IndexError")
    case True
    then show ?thesis by simp
  next
    case False
    note origin = field_raises [OF "1.prems" False]
    show ?thesis
    proof (cases "annotation field")
      case (ModelClass model)
      with origin have "pydantic_model_to_fields model = Inl e"
        by (simp del: pydantic_model_to_fields.simps)
      moreover from ModelClass have "generic_alias (annotation field) = None"
        and "base_model (annotation field) = Some model"
        by simp_all
      ultimately show ?thesis using "1.IH" by blast
    next
      case (MixinClass cls)
      with origin show ?thesis
        by (cases cls) auto
    qed (use origin in \<open>simp_all del: py_type_to_arrow_type.simps\<close>)
  qed
next
  case (2 name field)
  from "2.prems" have "pydantic_to_arrow_type field = Inl e"
    by (auto split: sum.splits)
  from "2.IH" [OF this] show ?case .
next
  case (3 model)
  from "3.prems" have "model_fields_loop (model_fields model) [] = Inl e" by simp
  from "3.IH" [OF this] show ?case .
next
  case (4 acc)
  then show ?case by simp
next
  case (5 name field rest acc)
  show ?case
  proof (cases "pydantic_to_field name field")
    case (Inl e')
    with "5.prems" have "pydantic_to_field name field = Inl e"
      by (simp del: pydantic_to_field.simps)
    from "5.IH"(1) [OF this] show ?thesis .
  next
    case (Inr f)
    with "5.prems" have "model_fields_loop rest (acc @ [f]) = Inl e"
      by (simp del: pydantic_to_field.simps)
    from "5.IH"(2) [OF Inr this] show ?thesis .
  qed
qed

text \<open>
  The subscript \<^verbatim>\<open>args[0]\<close> has no guard: \<^verbatim>\<open>list[()]\<close> is a list alias without arguments.
\<close>

lemma list_alias_without_arguments:
  "pydantic_to_arrow_type (FieldInfo (BuiltinAlias OriginList [])) = Inl IndexError"
  by (simp add: pydantic_to_arrow_type.simps)

text \<open>
  C5, as the code has it. A translation that fails with anything but the \<^verbatim>\<open>IndexError\<close> of
  a list alias without arguments fails with the \<^verbatim>\<open>TypeError\<close> that names a type the
  scalar translation rejects, with \<^verbatim>\<open>NotImplementedError\<close>, or with the \<^verbatim>\<open>ValueError\<close> or
  \<^verbatim>\<open>OverflowError\<close> of \<^verbatim>\<open>pa.list_\<close>. The exception of a model is the exception of one of its
  fields. The exception of a field is that of the nested model when the declared type is
  a model class; it is \<^verbatim>\<open>NotImplementedError\<close> when the declared type is the abstract
  marker base; it is \<^verbatim>\<open>ValueError\<close> or \<^verbatim>\<open>OverflowError\<close> when the declared type is a class
  that \<open>vector\<close> made, and then the dimension is not positive or does not fit 32 bits; it
  is the \<^verbatim>\<open>TypeError\<close> in every other case. The exception of the first field that does
  not translate is the result, whatever fields follow, and a schema is returned only
  when every field translates.
\<close>

theorem translation_error_kinds:
  "(\<forall>model e. pydantic_to_schema model = Inl e \<and> e \<noteq> IndexError \<longrightarrow>
      e = NotImplementedError \<or> e = ValueError \<or> e = OverflowError \<or>
      (\<exists>t. e = TypeError t \<and> py_type_to_arrow_type t = Inl (TypeError t))) \<and>
   (\<forall>model e. pydantic_to_schema model = Inl e \<longrightarrow>
      (\<exists>name field. (name, field) \<in> set (model_fields model) \<and>
         pydantic_to_arrow_type field = Inl e)) \<and>
   (\<forall>field e. pydantic_to_arrow_type field = Inl e \<and> e \<noteq> IndexError \<longrightarrow>
      (case annotation field of
         ModelClass model \<Rightarrow> pydantic_model_to_fields model = Inl e
       | MixinClass FixedSizeListMixin \<Rightarrow> e = NotImplementedError
       | MixinClass (FixedSizeList d value_type) \<Rightarrow>
           (e = ValueError \<and> d \<le> 0 \<and> d \<noteq> - 1) \<or>
           (e = OverflowError \<and> (d < - (2 ^ 31) \<or> 2 ^ 31 \<le> d))
       | _ \<Rightarrow> (\<exists>t. e = TypeError t \<and> py_type_to_arrow_type t = Inl (TypeError t)))) \<and>
   pydantic_to_arrow_type (FieldInfo (MixinClass FixedSizeListMixin)) = Inl NotImplementedError \<and>
   (\<forall>model before name field rest e.
      model_fields model = before @ (name, field) # rest \<and>
      list_all (\<lambda>(name, field). \<not> isl (pydantic_to_arrow_type field)) before \<and>
      pydantic_to_arrow_type field = Inl e \<longrightarrow>
      pydantic_to_schema model = Inl e) \<and>
   (\<forall>model. (\<exists>out. pydantic_to_schema model = Inr out) \<longleftrightarrow>
      list_all (\<lambda>(name, field). \<not> isl (pydantic_to_arrow_type field)) (model_fields model))"
proof (intro conjI allI impI)
  show "pydantic_to_arrow_type (FieldInfo (MixinClass FixedSizeListMixin)) = Inl NotImplementedError"
    by (simp add: pydantic_to_arrow_type.simps)
next
  fix model e
  assume h: "pydantic_to_schema model = Inl e \<and> e \<noteq> IndexError"
  then have "pydantic_model_to_fields model = Inl e"
    by (auto simp: pydantic_to_schema_def simp del: pydantic_model_to_fields.simps
        split: sum.splits)
  from translation_raises(3) [OF this] h
  show "e = NotImplementedError \<or> e = ValueError \<or> e = OverflowError \<or>
      (\<exists>t. e = TypeError t \<and> py_type_to_arrow_type t = Inl (TypeError t))"
    by blast
next
  fix model e
  assume "pydantic_to_schema model = Inl e"
  then have "model_fields_loop (model_fields model) [] = Inl e"
    by (auto simp: pydantic_to_schema_def split: sum.splits)
  then show "\<exists>name field. (name, field) \<in> set (model_fields model) \<and>
         pydantic_to_arrow_type field = Inl e"
    by (rule model_fields_loop_raised_by_field)
next
  fix field e
  assume "pydantic_to_arrow_type field = Inl e \<and> e \<noteq> IndexError"
  then show "case annotation field of
         ModelClass model \<Rightarrow> pydantic_model_to_fields model = Inl e
       | MixinClass FixedSizeListMixin \<Rightarrow> e = NotImplementedError
       | MixinClass (FixedSizeList d value_type) \<Rightarrow>
           (e = ValueError \<and> d \<le> 0 \<and> d \<noteq> - 1) \<or>
           (e = OverflowError \<and> (d < - (2 ^ 31) \<or> 2 ^ 31 \<le> d))
       | _ \<Rightarrow> (\<exists>t. e = TypeError t \<and> py_type_to_arrow_type t = Inl (TypeError t))"
    using field_raises by blast
next
  fix model before name field rest e
  assume h: "model_fields model = before @ (name, field) # rest \<and>
      list_all (\<lambda>(name, field). \<not> isl (pydantic_to_arrow_type field)) before \<and>
      pydantic_to_arrow_type field = Inl e"
  then have "model_fields_loop (before @ (name, field) # rest) [] = Inl e"
    using model_fields_loop_raises by blast
  with h show "pydantic_to_schema model = Inl e"
    by (simp add: pydantic_to_schema_def)
next
  fix model
  show "(\<exists>out. pydantic_to_schema model = Inr out) \<longleftrightarrow>
      list_all (\<lambda>(name, field). \<not> isl (pydantic_to_arrow_type field)) (model_fields model)"
  proof
    assume "\<exists>out. pydantic_to_schema model = Inr out"
    then obtain out where "model_fields_loop (model_fields model) [] = Inr out"
      by (auto simp: pydantic_to_schema_def split: sum.splits)
    then show "list_all (\<lambda>(name, field). \<not> isl (pydantic_to_arrow_type field)) (model_fields model)"
      by (rule model_fields_loop_all_translate)
  next
    assume "list_all (\<lambda>(name, field). \<not> isl (pydantic_to_arrow_type field)) (model_fields model)"
    from model_fields_loop_returns [OF this, of "[]"]
    show "\<exists>out. pydantic_to_schema model = Inr out"
      by (simp add: pydantic_to_schema_def)
  qed
qed

theorem translation_error_kinds_witness:
  "pydantic_to_schema
     (Model ''Event'' [(''id'', FieldInfo PyInt), (''at'', FieldInfo (OtherClass ''datetime'')),
        (''v'', FieldInfo (MixinClass FixedSizeListMixin))] None) =
     Inl (TypeError (OtherClass ''datetime'')) \<and>
   TypeError (OtherClass ''datetime'') \<noteq> IndexError \<and>
   py_type_to_arrow_type (OtherClass ''datetime'') = Inl (TypeError (OtherClass ''datetime'')) \<and>
   model_fields (Model ''Event'' [(''id'', FieldInfo PyInt), (''at'', FieldInfo (OtherClass ''datetime'')),
        (''v'', FieldInfo (MixinClass FixedSizeListMixin))] None) =
     [(''id'', FieldInfo PyInt)] @ (''at'', FieldInfo (OtherClass ''datetime'')) #
       [(''v'', FieldInfo (MixinClass FixedSizeListMixin))] \<and>
   list_all (\<lambda>(name, field). \<not> isl (pydantic_to_arrow_type field)) [(''id'', FieldInfo PyInt)] \<and>
   pydantic_to_arrow_type (FieldInfo (OtherClass ''datetime'')) = Inl (TypeError (OtherClass ''datetime'')) \<and>
   pydantic_to_arrow_type (FieldInfo (MixinClass (FixedSizeList (- 2) Float32))) = Inl ValueError \<and>
   ValueError \<noteq> IndexError \<and> (- 2::int) \<le> 0 \<and> (- 2::int) \<noteq> - 1"
proof -
  have a: "model_fields (Model ''Event'' [(''id'', FieldInfo PyInt), (''at'', FieldInfo (OtherClass ''datetime'')),
        (''v'', FieldInfo (MixinClass FixedSizeListMixin))] None) =
     [(''id'', FieldInfo PyInt)] @ (''at'', FieldInfo (OtherClass ''datetime'')) #
       [(''v'', FieldInfo (MixinClass FixedSizeListMixin))]"
    by simp
  have b: "list_all (\<lambda>(name, field). \<not> isl (pydantic_to_arrow_type field)) [(''id'', FieldInfo PyInt)]"
    by (simp add: pydantic_to_arrow_type.simps)
  have c: "pydantic_to_arrow_type (FieldInfo (OtherClass ''datetime'')) = Inl (TypeError (OtherClass ''datetime''))"
    by (simp add: pydantic_to_arrow_type.simps)
  have d: "pydantic_to_arrow_type (FieldInfo (MixinClass (FixedSizeList (- 2) Float32))) = Inl ValueError"
    by (simp add: pydantic_to_arrow_type.simps pa_list_def)
  from translation_error_kinds a b c
  have "pydantic_to_schema
     (Model ''Event'' [(''id'', FieldInfo PyInt), (''at'', FieldInfo (OtherClass ''datetime'')),
        (''v'', FieldInfo (MixinClass FixedSizeListMixin))] None) =
     Inl (TypeError (OtherClass ''datetime''))"
    by blast
  with a b c d show ?thesis by simp
qed

text \<open>
  A field whose declared type is the abstract marker base cannot be mapped either; the
  translation raises \<^verbatim>\<open>NotImplementedError\<close> there, a second kind of error.
\<close>

theorem abstract_marker_counterexample:
  "pydantic_to_schema (Model ''Doc'' [(''v'', FieldInfo (MixinClass FixedSizeListMixin))] None) =
     Inl NotImplementedError"
  by (simp add: pydantic_to_schema_def pydantic_to_arrow_type.simps)

section \<open>The vector marker and its validation\<close>

text \<open>
  C6. The class that \<open>vector\<close> returns for a dimension and a value type reports that
  dimension and that value type, 4-byte float when the caller gives none, and
  \<^verbatim>\<open>vector(768)\<close> as a field type translates to the fixed-size list of 768 4-byte floats.
  Validation against the class rejects every list whose length differs from the
  dimension and accepts every list of exactly that many values that validate as floats.
\<close>

theorem vector_marker:
  "dim (vector d value_type) = Inr d \<and>
   value_arrow_type (vector d (Some t)) = Inr t \<and>
   value_arrow_type (vector d None) = Inr Float32 \<and>
   pydantic_to_arrow_type (FieldInfo (MixinClass (vector 768 None))) =
     Inr (FixedSizeListType Float32 768) \<and>
   (\<forall>xs. int (length xs) \<noteq> d \<longrightarrow>
      validate_vector is_float (vector d value_type) (ListValue xs) = Some False) \<and>
   (\<forall>xs. int (length xs) = d \<and> list_all (validate is_float float_schema) xs \<longrightarrow>
      validate_vector is_float (vector d value_type) (ListValue xs) = Some True)"
  by (auto simp: vector_def validate_vector_def pydantic_to_arrow_type.simps pa_list_def)

theorem vector_marker_witness:
  "int (length (replicate 767 (Object True))) \<noteq> 768 \<and>
   validate_vector (\<lambda>x. x) (vector 768 None) (ListValue (replicate 767 (Object True))) = Some False \<and>
   int (length (replicate 769 (Object True))) \<noteq> 768 \<and>
   validate_vector (\<lambda>x. x) (vector 768 None) (ListValue (replicate 769 (Object True))) = Some False \<and>
   int (length (replicate 768 (Object True))) = 768 \<and>
   list_all (validate (\<lambda>x. x) float_schema) (replicate 768 (Object True)) \<and>
   validate_vector (\<lambda>x. x) (vector 768 None) (ListValue (replicate 768 (Object True))) = Some True"
proof -
  have a: "int (length (replicate 767 (Object True))) \<noteq> 768"
    and b: "int (length (replicate 769 (Object True))) \<noteq> 768"
    and c: "int (length (replicate 768 (Object True))) = 768"
    and e: "list_all (validate (\<lambda>x. x) float_schema) (replicate 768 (Object True))"
    by (simp_all add: list_all_iff)
  from vector_marker [of 768 None _ "\<lambda>x. x"] a b c e
  have "validate_vector (\<lambda>x. x) (vector 768 None) (ListValue (replicate 767 (Object True))) = Some False"
    and "validate_vector (\<lambda>x. x) (vector 768 None) (ListValue (replicate 769 (Object True))) = Some False"
    and "validate_vector (\<lambda>x. x) (vector 768 None) (ListValue (replicate 768 (Object True))) = Some True"
    by blast+
  with a b c e show ?thesis by blast
qed

text \<open>
  C10. Validation against a marker class asks for a list of exactly \<open>d\<close> values that each
  validate as a float, whatever value type the class declares: two classes of the same
  dimension accept the same values, so a class declared with an integer Arrow type
  accepts a list of floats.
\<close>

theorem validation_ignores_value_type:
  "validate_vector is_float (FixedSizeList d value_type) v =
     Some (case v of
             Object x \<Rightarrow> False
           | ListValue xs \<Rightarrow>
               int (length xs) = d \<and> list_all (validate is_float float_schema) xs) \<and>
   validate_vector is_float (FixedSizeList d value_type) v =
     validate_vector is_float (FixedSizeList d other_type) v"
  by (auto simp: validate_vector_def split: py_value.splits)

theorem validation_ignores_value_type_witness:
  "validate_vector (\<lambda>x. x = ''1.5'') (vector 2 (Some (OtherArrow ''int32'')))
     (ListValue [Object ''1.5'', Object ''1.5'']) = Some True \<and>
   validate_vector (\<lambda>x. x = ''1.5'') (vector 2 (Some (OtherArrow ''int32'')))
     (ListValue [Object ''1.5'', Object ''1.5'']) =
   validate_vector (\<lambda>x. x = ''1.5'') (vector 2 None) (ListValue [Object ''1.5'', Object ''1.5''])"
proof -
  note both = validation_ignores_value_type
    [of "\<lambda>x. x = ''1.5''" 2 "OtherArrow ''int32''" "ListValue [Object ''1.5'', Object ''1.5'']" Float32]
  from both [THEN conjunct1]
  have accepted: "validate_vector (\<lambda>x. x = ''1.5'') (FixedSizeList 2 (OtherArrow ''int32''))
     (ListValue [Object ''1.5'', Object ''1.5'']) = Some True"
    by simp
  from accepted both [THEN conjunct2] show ?thesis
    by (simp only: vector_def option.case simp_thms)
qed

section \<open>URI scheme and location\<close>

lemma splitnetloc_chars:
  "set (fst (splitnetloc url start)) \<subseteq> set url"
  by (auto simp: splitnetloc_def Let_def dest!: in_set_dropD in_set_takeD)

lemma urlsplit_without_brackets:
  assumes "CHR ''['' \<notin> set uri" and "CHR '']'' \<notin> set uri"
  shows "\<exists>r. urlsplit ipv6 uri = Inr r"
proof -
  define url2 where "url2 = filter (\<lambda>c. \<not> unsafe_url_byte c) (dropWhile c0_control_or_space uri)"
  define pair where "pair =
            (case find CHR '':'' url2 of
               None \<Rightarrow> ('''', url2)
             | Some i \<Rightarrow>
                 if 0 < i \<and> ascii_alpha (hd url2) \<and>
                    list_all (\<lambda>c. c \<in> set scheme_chars) (take i url2)
                 then (map lower_char (take i url2), drop (i + 1) url2)
                 else ('''', url2))"
  define url3 where "url3 = snd pair"
  define netloc1 where
    "netloc1 = fst (if take 2 url3 = ''//'' then splitnetloc url3 2 else ('''', url3))"
  have "set url2 \<subseteq> set uri"
    by (auto simp: url2_def dest: set_dropWhileD)
  moreover have "set url3 \<subseteq> set url2"
    by (auto simp: url3_def pair_def split: option.splits dest: in_set_dropD)
  moreover have "set netloc1 \<subseteq> set url3"
    using splitnetloc_chars [of url3 2] by (auto simp: netloc1_def)
  ultimately have "CHR ''['' \<notin> set netloc1" and "CHR '']'' \<notin> set netloc1"
    using assms by blast+
  then show ?thesis
    unfolding urlsplit_def Let_def url2_def [symmetric] pair_def [symmetric]
    by (simp add: case_prod_beta url3_def [symmetric] netloc1_def [symmetric])
qed

lemma urlparse_without_brackets:
  assumes "CHR ''['' \<notin> set uri" and "CHR '']'' \<notin> set uri"
  shows "\<exists>parsed. urlparse ipv6 uri = Inr parsed"
proof -
  from urlsplit_without_brackets [OF assms] obtain r where "urlsplit ipv6 uri = Inr r" ..
  then show ?thesis
    by (simp add: urlparse_def Let_def case_prod_beta)
qed

lemmas urlparse_unfold =
  urlparse_def urlsplit_def splitnetloc_def splitparams_def find_def rfind_def find_from_def
  partition_before_def partition_after_def check_bracketed_host_def scheme_chars_def
  uses_params_def c0_control_or_space_def unsafe_url_byte_def ascii_alpha_def hex_digit_def
  lower_char_def Let_def

text \<open>
  C7, as the code has it. Whenever the parser returns, \<open>get_uri_scheme\<close> returns
  \<^verbatim>\<open>file\<close> for an empty parsed scheme, \<^verbatim>\<open>s3\<close> for \<^verbatim>\<open>s3a\<close> and \<^verbatim>\<open>s3n\<close>, \<^verbatim>\<open>file\<close> for a scheme
  of one character, and the parsed scheme otherwise; the parser returns for every string
  without square brackets; when the parser raises, its \<^verbatim>\<open>ValueError\<close> is what the call
  gives. The three examples of the specification hold.
\<close>

theorem uri_scheme_of_parsed:
  "(\<forall>uri parsed. urlparse ipv6 uri = Inr parsed \<longrightarrow>
      (scheme parsed = '''' \<longrightarrow> get_uri_scheme ipv6 uri = Inr ''file'') \<and>
      (scheme parsed = ''s3a'' \<or> scheme parsed = ''s3n'' \<longrightarrow>
         get_uri_scheme ipv6 uri = Inr ''s3'') \<and>
      (length (scheme parsed) = 1 \<longrightarrow> get_uri_scheme ipv6 uri = Inr ''file'') \<and>
      (scheme parsed \<noteq> '''' \<and> scheme parsed \<noteq> ''s3a'' \<and> scheme parsed \<noteq> ''s3n'' \<and>
       length (scheme parsed) \<noteq> 1 \<longrightarrow> get_uri_scheme ipv6 uri = Inr (scheme parsed))) \<and>
   (\<forall>uri. CHR ''['' \<notin> set uri \<and> CHR '']'' \<notin> set uri \<longrightarrow>
      (\<exists>parsed. urlparse ipv6 uri = Inr parsed)) \<and>
   (\<forall>uri e. urlparse ipv6 uri = Inl e \<longrightarrow> get_uri_scheme ipv6 uri = Inl e) \<and>
   get_uri_scheme ipv6 ''s3a://bucket/key'' = Inr ''s3'' \<and>
   get_uri_scheme ipv6 ''/local/path'' = Inr ''file'' \<and>
   get_uri_scheme ipv6 (''C:'' @ [CHR 0x5C] @ ''Users'' @ [CHR 0x5C] @ ''x'') = Inr ''file''"
proof (intro conjI allI impI)
  show "get_uri_scheme ipv6 ''s3a://bucket/key'' = Inr ''s3''"
    by (simp add: get_uri_scheme_def urlparse_unfold)
  show "get_uri_scheme ipv6 ''/local/path'' = Inr ''file''"
    by (simp add: get_uri_scheme_def urlparse_unfold)
  show "get_uri_scheme ipv6 (''C:'' @ [CHR 0x5C] @ ''Users'' @ [CHR 0x5C] @ ''x'') = Inr ''file''"
    by (simp add: get_uri_scheme_def urlparse_unfold)
next
  fix uri
  assume "CHR ''['' \<notin> set uri \<and> CHR '']'' \<notin> set uri"
  then show "\<exists>parsed. urlparse ipv6 uri = Inr parsed"
    using urlparse_without_brackets by blast
qed (auto simp: get_uri_scheme_def)

theorem uri_scheme_of_parsed_witness:
  "urlparse {} ''gs://bucket/key'' =
     Inr \<lparr>scheme = ''gs'', netloc = ''bucket'', path = ''/key'', params = '''', query = '''',
          fragment = ''''\<rparr> \<and>
   get_uri_scheme {} ''gs://bucket/key'' = Inr ''gs'' \<and>
   get_uri_scheme {} ''s3n://bucket'' = Inr ''s3''"
proof -
  have p: "urlparse {} ''gs://bucket/key'' =
     Inr \<lparr>scheme = ''gs'', netloc = ''bucket'', path = ''/key'', params = '''', query = '''',
          fragment = ''''\<rparr>"
    by (simp add: urlparse_unfold)
  have q: "urlparse {} ''s3n://bucket'' =
     Inr \<lparr>scheme = ''s3n'', netloc = ''bucket'', path = '''', params = '''', query = '''',
          fragment = ''''\<rparr>"
    by (simp add: urlparse_unfold)
  from uri_scheme_of_parsed [of "{}"] p q show ?thesis
    by fastforce
qed

text \<open>
  An IPv6 literal without its closing bracket has no scheme segment, and the call raises
  the parser's \<^verbatim>\<open>ValueError\<close> instead of returning \<^verbatim>\<open>file\<close>.
\<close>

theorem uri_scheme_unclosed_bracket_counterexample:
  "get_uri_scheme {} ''//[::1/data'' = Inl ValueError"
  by (simp add: get_uri_scheme_def urlparse_unfold)

text \<open>
  C8, as the code has it. Whenever the parser returns, \<open>get_uri_location\<close> returns the
  parsed path when the parsed network location is empty, and the network location
  followed at once by the path otherwise; the parser returns for every string without
  square brackets; when the parser raises, its \<^verbatim>\<open>ValueError\<close> is what the call gives.
  The two examples of the specification hold.
\<close>

theorem uri_location_of_parsed:
  "(\<forall>uri parsed. urlparse ipv6 uri = Inr parsed \<longrightarrow>
      (netloc parsed = '''' \<longrightarrow> get_uri_location ipv6 uri = Inr (path parsed)) \<and>
      (netloc parsed \<noteq> '''' \<longrightarrow>
         get_uri_location ipv6 uri = Inr (netloc parsed @ path parsed))) \<and>
   (\<forall>uri. CHR ''['' \<notin> set uri \<and> CHR '']'' \<notin> set uri \<longrightarrow>
      (\<exists>parsed. urlparse ipv6 uri = Inr parsed)) \<and>
   (\<forall>uri e. urlparse ipv6 uri = Inl e \<longrightarrow> get_uri_location ipv6 uri = Inl e) \<and>
   get_uri_location ipv6 ''s3://bucket/key/obj'' = Inr ''bucket/key/obj'' \<and>
   get_uri_location ipv6 ''/local/path'' = Inr ''/local/path''"
proof (intro conjI allI impI)
  show "get_uri_location ipv6 ''s3://bucket/key/obj'' = Inr ''bucket/key/obj''"
    by (simp add: get_uri_location_def urlparse_unfold)
  show "get_uri_location ipv6 ''/local/path'' = Inr ''/local/path''"
    by (simp add: get_uri_location_def urlparse_unfold)
next
  fix uri
  assume "CHR ''['' \<notin> set uri \<and> CHR '']'' \<notin> set uri"
  then show "\<exists>parsed. urlparse ipv6 uri = Inr parsed"
    using urlparse_without_brackets by blast
qed (auto simp: get_uri_location_def)

theorem uri_location_of_parsed_witness:
  "urlparse {} ''gs://bucket'' =
     Inr \<lparr>scheme = ''gs'', netloc = ''bucket'', path = '''', params = '''', query = '''',
          fragment = ''''\<rparr> \<and>
   get_uri_location {} ''gs://bucket'' = Inr ''bucket'' \<and>
   get_uri_location {} ''data/tbl.lance'' = Inr ''data/tbl.lance''"
proof -
  have p: "urlparse {} ''gs://bucket'' =
     Inr \<lparr>scheme = ''gs'', netloc = ''bucket'', path = '''', params = '''', query = '''',
          fragment = ''''\<rparr>"
    by (simp add: urlparse_unfold)
  have q: "urlparse {} ''data/tbl.lance'' =
     Inr \<lparr>scheme = '''', netloc = '''', path = ''data/tbl.lance'', params = '''', query = '''',
          fragment = ''''\<rparr>"
    by (simp add: urlparse_unfold)
  from uri_location_of_parsed [of "{}"] p q show ?thesis
    by fastforce
qed

text \<open>
  A bucket URI with a stray opening bracket has a network location, and the call raises
  the parser's \<^verbatim>\<open>ValueError\<close> instead of returning a location.
\<close>

theorem uri_location_unclosed_bracket_counterexample:
  "get_uri_location {} ''s3://[bucket/key'' = Inl ValueError"
  by (simp add: get_uri_location_def urlparse_unfold)

end
